theory Spec2Isabelle
  imports Main
begin

section \<open>Python string primitives used by pr\_tool.py\<close>

text \<open>
  A Python \<open>str\<close> is modelled as a \<open>string\<close>; every \<open>char\<close> stands for one code
  point below 256. Code points from 256 on (among them the line separators U+2028 and
  U+2029 and the wide Unicode spaces) are outside this model.
\<close>

text \<open>\<open>str.isspace\<close> on one code point: TAB, LF, VT, FF, CR, FS, GS, RS, US, SPACE, NEL, NBSP.\<close>

definition py_isspace :: "char \<Rightarrow> bool" where
  "py_isspace c = (of_char c \<in> {9, 10, 11, 12, 13, 28, 29, 30, 31, 32, 133, 160 :: nat})"

text \<open>\<open>s.strip()\<close>: whitespace removed at both ends.\<close>

definition py_strip :: "string \<Rightarrow> string" where
  "py_strip s = rev (dropWhile py_isspace (rev (dropWhile py_isspace s)))"

text \<open>\<open>s.lstrip(chars)\<close>: the longest prefix made of characters of \<open>chars\<close> is removed.\<close>

definition py_lstrip :: "string \<Rightarrow> string \<Rightarrow> string" where
  "py_lstrip chars s = dropWhile (\<lambda>c. c \<in> set chars) s"

text \<open>
  The one-character line boundaries of \<open>str.splitlines\<close> other than CR:
  LF, VT, FF, FS, GS, RS, NEL. CR is a boundary too, and CR LF counts once.
\<close>

definition py_linebreak :: "char \<Rightarrow> bool" where
  "py_linebreak c = (of_char c \<in> {10, 11, 12, 28, 29, 30, 133 :: nat})"

fun splitlines_acc :: "string \<Rightarrow> string \<Rightarrow> string list" where
  "splitlines_acc acc [] = (if acc = [] then [] else [rev acc])"
| "splitlines_acc acc (c # cs) =
     (if c = CHR 0x0D then
        (case cs of
           [] \<Rightarrow> [rev acc]
         | d # ds \<Rightarrow>
             if d = CHR 0x0A then rev acc # splitlines_acc [] ds
             else rev acc # splitlines_acc [] cs)
      else if py_linebreak c then rev acc # splitlines_acc [] cs
      else splitlines_acc (c # acc) cs)"

definition py_splitlines :: "string \<Rightarrow> string list" where
  "py_splitlines s = splitlines_acc [] s"

text \<open>\<open>s.split()\<close>: the maximal runs of non-whitespace characters, in order.\<close>

fun split_acc :: "string \<Rightarrow> string \<Rightarrow> string list" where
  "split_acc acc [] = (if acc = [] then [] else [rev acc])"
| "split_acc acc (c # cs) =
     (if py_isspace c then
        (if acc = [] then split_acc [] cs else rev acc # split_acc [] cs)
      else split_acc (c # acc) cs)"

definition py_split :: "string \<Rightarrow> string list" where
  "py_split s = split_acc [] s"

text \<open>\<open>sub in s\<close> on strings: \<open>sub\<close> occurs as a contiguous substring of \<open>s\<close>.\<close>

fun py_contains :: "string \<Rightarrow> string \<Rightarrow> bool" where
  "py_contains sub [] = (sub = [])"
| "py_contains sub (c # cs) = (take (length sub) (c # cs) = sub \<or> py_contains sub cs)"

section \<open>JSON values as Python objects\<close>

text \<open>
  What \<open>json.load\<close> returns: \<open>None\<close>, a bool, an int, a str, a list or a dict with
  str keys. A dict is an association list in insertion order, looked up with \<open>map_of\<close>.
  Numbers with a fraction or an exponent (Python floats) are outside this model.
\<close>

datatype json =
    JNull
  | JBool bool
  | JNum int
  | JStr string
  | JArr "json list"
  | JObj "(string \<times> json) list"

text \<open>The exceptions the script can raise, and \<open>sys.exit\<close>.\<close>

datatype error =
    CalledProcessError nat string
  | SystemExit nat
  | KeyError string
  | TypeError
  | AttributeError
  | IndexError
  | URLError string
  | JSONDecodeError

text \<open>Truth value of an object, as \<open>if x:\<close> tests it.\<close>

fun py_truthy :: "json \<Rightarrow> bool" where
  "py_truthy JNull = False"
| "py_truthy (JBool b) = b"
| "py_truthy (JNum i) = (i \<noteq> 0)"
| "py_truthy (JStr s) = (s \<noteq> [])"
| "py_truthy (JArr xs) = (xs \<noteq> [])"
| "py_truthy (JObj kvs) = (kvs \<noteq> [])"

text \<open>\<open>d.get(k, default)\<close>: only a dict has the method.\<close>

fun py_get :: "json \<Rightarrow> string \<Rightarrow> json \<Rightarrow> error + json" where
  "py_get (JObj kvs) k dflt = Inr (case map_of kvs k of None \<Rightarrow> dflt | Some v \<Rightarrow> v)"
| "py_get _ k dflt = Inl AttributeError"

text \<open>\<open>d[k]\<close> with a str key: KeyError on a dict without the key, TypeError on anything else.\<close>

fun py_index :: "json \<Rightarrow> string \<Rightarrow> error + json" where
  "py_index (JObj kvs) k = (case map_of kvs k of None \<Rightarrow> Inl (KeyError k) | Some v \<Rightarrow> Inr v)"
| "py_index _ k = Inl TypeError"

text \<open>\<open>d[k1][k2]...\<close>, left to right.\<close>

fun py_path :: "json \<Rightarrow> string list \<Rightarrow> error + json" where
  "py_path d [] = Inr d"
| "py_path d (k # ks) = (case py_index d k of Inl e \<Rightarrow> Inl e | Inr v \<Rightarrow> py_path v ks)"

subsection \<open>Formatting inside an f-string\<close>

definition digit_char :: "nat \<Rightarrow> char" where
  "digit_char n = char_of (48 + n)"

fun nat_digits :: "nat \<Rightarrow> string" where
  "nat_digits n = (if n < 10 then [digit_char n] else nat_digits (n div 10) @ [digit_char (n mod 10)])"

definition int_str :: "int \<Rightarrow> string" where
  "int_str i = (if i < 0 then CHR ''-'' # nat_digits (nat (- i)) else nat_digits (nat i))"

definition hex_char :: "nat \<Rightarrow> char" where
  "hex_char n = (if n < 10 then char_of (48 + n) else char_of (87 + n))"

text \<open>
  \<open>repr\<close> of a str: double quotes when the text has a single quote and no double quote,
  single quotes otherwise; the quote and the backslash escaped, TAB, LF, CR as
  \<open>\t \n \r\<close>, the other non-printable code points as \<open>\xhh\<close>.
\<close>

definition repr_quote :: "string \<Rightarrow> char" where
  "repr_quote s = (if CHR 0x27 \<in> set s \<and> CHR 0x22 \<notin> set s then CHR 0x22 else CHR 0x27)"

definition repr_char :: "char \<Rightarrow> char \<Rightarrow> string" where
  "repr_char q c =
     (let n = (of_char c :: nat) in
      if c = q \<or> c = CHR 0x5C then [CHR 0x5C, c]
      else if n = 9 then [CHR 0x5C, CHR ''t'']
      else if n = 10 then [CHR 0x5C, CHR ''n'']
      else if n = 13 then [CHR 0x5C, CHR ''r'']
      else if n < 32 \<or> (127 \<le> n \<and> n \<le> 160) \<or> n = 173
        then [CHR 0x5C, CHR ''x'', hex_char (n div 16), hex_char (n mod 16)]
      else [c])"

definition repr_str :: "string \<Rightarrow> string" where
  "repr_str s = (let q = repr_quote s in q # concat (map (repr_char q) s) @ [q])"

fun py_repr :: "json \<Rightarrow> string"
  and repr_elems :: "json list \<Rightarrow> string"
  and repr_items :: "(string \<times> json) list \<Rightarrow> string" where
  "py_repr JNull = ''None''"
| "py_repr (JBool b) = (if b then ''True'' else ''False'')"
| "py_repr (JNum i) = int_str i"
| "py_repr (JStr s) = repr_str s"
| "py_repr (JArr xs) = ''['' @ repr_elems xs @ '']''"
| "py_repr (JObj kvs) = ''{'' @ repr_items kvs @ ''}''"
| "repr_elems [] = []"
| "repr_elems (x # xs) = py_repr x @ (if xs = [] then [] else '', '' @ repr_elems xs)"
| "repr_items [] = []"
| "repr_items (kv # kvs) =
     repr_str (fst kv) @ '': '' @ py_repr (snd kv) @ (if kvs = [] then [] else '', '' @ repr_items kvs)"

text \<open>\<open>f"{x}"\<close>: a str is inserted as it is, anything else through its \<open>repr\<close>.\<close>

fun py_str :: "json \<Rightarrow> string" where
  "py_str (JStr s) = s"
| "py_str v = py_repr v"

section \<open>The world outside the script\<close>

text \<open>
  What a run leaves behind: the shell commands passed to \<open>subprocess.run\<close>, the URLs
  opened, and what the script printed, each in order.
\<close>

datatype stdout_item = Printed string | HelpText

record world =
  cmds :: "string list"
  urls :: "string list"
  out :: "stdout_item list"

text \<open>
  The shell is a parameter: from the commands run so far and the command line it gives
  the exit code and the text of \<open>result.stdout\<close>. So is the forge: what \<open>urlopen\<close>
  and \<open>json.load\<close> make of a URL. \<open>HttpError\<close> is urllib's \<open>HTTPError\<close> (a response with
  an error status) with its \<open>str\<close>; \<open>ConnFailure\<close> is a plain \<open>URLError\<close> (no response at
  all), which is not an \<open>HTTPError\<close>; \<open>BodyNotJson\<close> is a body \<open>json.load\<close> rejects.
\<close>

type_synonym shell = "string list \<Rightarrow> string \<Rightarrow> nat \<times> string"

datatype http_outcome =
    HttpOk json
  | HttpError string
  | ConnFailure string
  | BodyNotJson

type_synonym forge = "string \<Rightarrow> http_outcome"

text \<open>A computation ends with a value or with an exception, and with the world it reached.\<close>

type_synonym 'a prog = "world \<Rightarrow> (error + 'a) \<times> world"

definition ret :: "'a \<Rightarrow> 'a prog" where
  "ret x w = (Inr x, w)"

definition raise :: "error \<Rightarrow> 'a prog" where
  "raise e w = (Inl e, w)"

definition seq :: "'a prog \<Rightarrow> ('a \<Rightarrow> 'b prog) \<Rightarrow> 'b prog" where
  "seq m f w = (case m w of (Inl e, w') \<Rightarrow> (Inl e, w') | (Inr x, w') \<Rightarrow> f x w')"

definition lift :: "error + 'a \<Rightarrow> 'a prog" where
  "lift r w = (r, w)"

definition print :: "string \<Rightarrow> unit prog" where
  "print s w = (Inr (), w\<lparr>out := out w @ [Printed s]\<rparr>)"

definition print_help :: "unit prog" where
  "print_help w = (Inr (), w\<lparr>out := out w @ [HelpText]\<rparr>)"

text \<open>The ANSI colour sequences of the messages: ESC, bracket, code, \<open>m\<close>.\<close>

definition colour :: "string \<Rightarrow> string" where
  "colour code = CHR 0x1B # ''['' @ code @ ''m''"

section \<open>run\_cmd and fetch\_pr\_json\<close>

text \<open>
  \<open>run_cmd\<close>: the command is run and recorded; with \<open>check\<close> a non-zero exit code raises
  CalledProcessError; with \<open>capture_output\<close> the stripped output is returned, else None.
\<close>

definition run_cmd :: "shell \<Rightarrow> string \<Rightarrow> bool \<Rightarrow> bool \<Rightarrow> string option prog" where
  "run_cmd sh cmd check capture_output w =
     (let r = sh (cmds w) cmd;
          w' = w\<lparr>cmds := cmds w @ [cmd]\<rparr>
      in if check \<and> fst r \<noteq> 0 then (Inl (CalledProcessError (fst r) cmd), w')
         else (Inr (if capture_output then Some (py_strip (snd r)) else None), w'))"

text \<open>A captured result used as a str; None has no str methods.\<close>

definition captured :: "string option \<Rightarrow> string prog" where
  "captured r = (case r of None \<Rightarrow> raise AttributeError | Some s \<Rightarrow> ret s)"

definition pr_url :: "string \<Rightarrow> string \<Rightarrow> string \<Rightarrow> string" where
  "pr_url owner repo pr_number =
     ''https://projects.blender.org/api/v1/repos/'' @ owner @ ''/'' @ repo @ ''/pulls/'' @ pr_number"

text \<open>Only \<open>HTTPError\<close> is caught: the message is printed in red and the process exits with 1.\<close>

definition fetch_pr_json :: "forge \<Rightarrow> string \<Rightarrow> string \<Rightarrow> string \<Rightarrow> json prog" where
  "fetch_pr_json http owner repo pr_number w =
     (let url = pr_url owner repo pr_number;
          w' = w\<lparr>urls := urls w @ [url]\<rparr>
      in case http url of
           HttpOk j \<Rightarrow> (Inr j, w')
         | HttpError e \<Rightarrow>
             seq (print (colour ''91'' @ ''Error fetching PR data: '' @ e @ colour ''0''))
                 (\<lambda>_. raise (SystemExit 1)) w'
         | ConnFailure e \<Rightarrow> (Inl (URLError e), w')
         | BodyNotJson \<Rightarrow> (Inl JSONDecodeError, w'))"

section \<open>checkout\_pr\<close>

definition local_branch_name :: "string \<Rightarrow> json \<Rightarrow> json \<Rightarrow> string" where
  "local_branch_name pr_number pr_author pr_branch =
     ''PR/'' @ pr_number @ ''/'' @ py_str pr_author @ ''-'' @ py_str pr_branch"

text \<open>Lines 64 to 80: the git part, once the fields of an open PR are read.\<close>

definition checkout_git ::
  "shell \<Rightarrow> string \<Rightarrow> json \<Rightarrow> json \<Rightarrow> json \<Rightarrow> json \<Rightarrow> string \<Rightarrow> unit prog" where
  "checkout_git sh pr_number pr_data pr_repo pr_branch base_branch local_branch =
     seq (seq (run_cmd sh ''git branch --show-current'' True True) captured) (\<lambda>current_branch.
     seq (if JStr current_branch \<noteq> base_branch
          then seq (run_cmd sh (''git checkout '' @ py_str base_branch) True False) (\<lambda>_. ret ())
          else ret ()) (\<lambda>_.
     seq (seq (run_cmd sh ''git branch'' True True) captured) (\<lambda>listing.
     let existing_branches = map (\<lambda>b. py_lstrip ''* '' (py_strip b)) (py_splitlines listing) in
     seq (if local_branch \<in> set existing_branches
          then seq (print (colour ''95'' @ ''Branch '' @ local_branch @ '' exists, refreshing it.'' @ colour ''0''))
                 (\<lambda>_. seq (run_cmd sh (''git branch -D '' @ local_branch) True False) (\<lambda>_. ret ()))
          else print (colour ''96'' @ ''Branch '' @ local_branch @ '' does not exist.'' @ colour ''0'')) (\<lambda>_.
     seq (run_cmd sh (''git checkout -b '' @ local_branch @ '' '' @ py_str base_branch) True False) (\<lambda>_.
     seq (run_cmd sh (''git pull --no-rebase --ff --no-edit --commit https://projects.blender.org/''
                        @ py_str pr_repo @ '' '' @ py_str pr_branch) True False) (\<lambda>_.
     seq (print (colour ''95'' @ ''Branch '' @ local_branch @ '' is ready for use.'' @ colour ''0'')) (\<lambda>_.
     seq (lift (py_index pr_data ''title'')) (\<lambda>title.
     print (colour ''94'' @ ''Pulled PR #'' @ pr_number @ '': '' @ py_str title @ colour ''0'')))))))))"

text \<open>Lines 53 to 80: the path of a PR that is neither merged nor closed.\<close>

definition checkout_open :: "shell \<Rightarrow> string \<Rightarrow> json \<Rightarrow> unit prog" where
  "checkout_open sh pr_number pr_data =
     seq (lift (py_path pr_data [''head'', ''repo'', ''full_name''])) (\<lambda>pr_repo.
     seq (lift (py_path pr_data [''head'', ''repo'', ''owner'', ''username''])) (\<lambda>pr_author.
     seq (lift (py_path pr_data [''head'', ''ref''])) (\<lambda>pr_branch.
     seq (lift (py_path pr_data [''base'', ''ref''])) (\<lambda>base_branch.
     let local_branch = local_branch_name pr_number pr_author pr_branch in
     seq (lift (py_index pr_data ''title'')) (\<lambda>title.
     seq (print (colour ''95'' @ ''Pulling PR #'' @ pr_number @ '': '' @ py_str title @ colour ''0'')) (\<lambda>_.
     seq (print (colour ''90'' @ ''Incoming branch: '' @ py_str pr_repo @ colour ''0'')) (\<lambda>_.
     seq (print (colour ''90'' @ ''Base branch   : '' @ py_str base_branch @ colour ''0'')) (\<lambda>_.
     seq (print (colour ''90'' @ ''Local branch  : '' @ local_branch @ colour ''0'')) (\<lambda>_.
     checkout_git sh pr_number pr_data pr_repo pr_branch base_branch local_branch)))))))))"

text \<open>Lines 43 to 47: the path of a merged PR.\<close>

definition checkout_merged :: "string \<Rightarrow> json \<Rightarrow> unit prog" where
  "checkout_merged pr_number pr_data =
     seq (print (colour ''92'' @ ''PR #'' @ pr_number @ '' is already merged.'' @ colour ''0'')) (\<lambda>_.
     seq (lift (py_get pr_data ''merged_at'' JNull)) (\<lambda>merged_at.
     seq (print (''Merged at: '' @ py_str merged_at)) (\<lambda>_.
     seq (lift (py_get pr_data ''merged_by'' (JObj []))) (\<lambda>merged_by.
     seq (lift (py_get merged_by ''full_name'' JNull)) (\<lambda>full_name.
     print (''Merged by: '' @ py_str full_name))))))"

definition checkout_pr :: "shell \<Rightarrow> forge \<Rightarrow> string \<Rightarrow> string \<Rightarrow> string \<Rightarrow> unit prog" where
  "checkout_pr sh http pr_number owner repo =
     seq (fetch_pr_json http owner repo pr_number) (\<lambda>pr_data.
     seq (lift (py_get pr_data ''merged'' JNull)) (\<lambda>merged.
     if py_truthy merged then checkout_merged pr_number pr_data
     else
       seq (lift (py_get pr_data ''state'' JNull)) (\<lambda>state.
       if state = JStr ''closed''
       then print (colour ''91'' @ ''PR #'' @ pr_number @ '' is closed.'' @ colour ''0'')
       else checkout_open sh pr_number pr_data)))"

section \<open>prune\_branches\<close>

text \<open>Lines 87 to 91: the loop over the lines of \<open>git branch --merged\<close>.\<close>

fun delete_merged :: "shell \<Rightarrow> string \<Rightarrow> string list \<Rightarrow> unit prog" where
  "delete_merged sh current_branch [] = ret ()"
| "delete_merged sh current_branch (line # rest) =
     (let branch = py_lstrip ''* '' (py_strip line) in
      if branch \<noteq> [] \<and> branch \<noteq> current_branch \<and> branch \<noteq> ''main'' \<and> branch \<noteq> ''master''
      then
        seq (run_cmd sh (''git branch -d '' @ branch) True False) (\<lambda>_.
        seq (print (colour ''92'' @ ''Deleted merged branch: '' @ branch @ colour ''0'')) (\<lambda>_.
        delete_merged sh current_branch rest))
      else delete_merged sh current_branch rest)"

text \<open>Lines 96 to 100: the loop over the lines of \<open>git branch -vv\<close>.\<close>

fun delete_gone :: "shell \<Rightarrow> string list \<Rightarrow> unit prog" where
  "delete_gone sh [] = ret ()"
| "delete_gone sh (line # rest) =
     (if py_contains ''[gone]'' line
      then
        seq (lift (case py_split line of [] \<Rightarrow> Inl IndexError | branch # _ \<Rightarrow> Inr branch)) (\<lambda>branch.
        seq (run_cmd sh (''git branch -D '' @ branch) True False) (\<lambda>_.
        seq (print (colour ''92'' @ ''Deleted stale branch: '' @ branch @ colour ''0'')) (\<lambda>_.
        delete_gone sh rest)))
      else delete_gone sh rest)"

definition prune_branches :: "shell \<Rightarrow> unit prog" where
  "prune_branches sh =
     seq (print (colour ''93'' @ ''Pruning local branches...'' @ colour ''0'')) (\<lambda>_.
     seq (seq (run_cmd sh ''git branch --merged'' True True) captured) (\<lambda>merged.
     seq (seq (run_cmd sh ''git branch --show-current'' True True) captured) (\<lambda>current_branch.
     seq (delete_merged sh current_branch (py_splitlines merged)) (\<lambda>_.
     seq (run_cmd sh ''git fetch --prune'' True False) (\<lambda>_.
     seq (seq (run_cmd sh ''git branch -vv'' True True) captured) (\<lambda>gone.
     delete_gone sh (py_splitlines gone)))))))"

section \<open>main\<close>

text \<open>
  The namespace \<open>parse_args\<close> returns. \<open>pr_number\<close> is the optional positional, kept as
  the str the command line gave; \<open>parser_defaults\<close> is the namespace of an empty
  command line, from the \<open>default\<close> of each \<open>add_argument\<close>.
\<close>

record args =
  pr_number :: "string option"
  owner :: string
  repo :: string
  prune :: bool

definition parser_defaults :: args where
  "parser_defaults = \<lparr>pr_number = None, owner = ''blender'', repo = ''blender'', prune = False\<rparr>"

text \<open>\<open>elif args.pr_number:\<close> tests the truth value: None and the empty str are both false.\<close>

definition main :: "shell \<Rightarrow> forge \<Rightarrow> args \<Rightarrow> unit prog" where
  "main sh http a =
     (if prune a then prune_branches sh
      else case pr_number a of
             Some n \<Rightarrow> if n \<noteq> [] then checkout_pr sh http n (owner a) (repo a) else print_help
           | None \<Rightarrow> print_help)"

text \<open>
  The exit code of the process: 0 after a normal return, the argument of \<open>sys.exit\<close>, and
  1 when an exception reaches the top level.
\<close>

fun exit_status :: "error + unit \<Rightarrow> nat" where
  "exit_status (Inr _) = 0"
| "exit_status (Inl (SystemExit n)) = n"
| "exit_status (Inl _) = 1"

definition world0 :: world where
  "world0 = \<lparr>cmds = [], urls = [], out = []\<rparr>"

section \<open>Vocabulary of the statements\<close>

text \<open>The commands a computation adds to the record when it starts in world \<open>w\<close>.\<close>

definition issued :: "'a prog \<Rightarrow> world \<Rightarrow> string list" where
  "issued p w = drop (length (cmds w)) (cmds (snd (p w)))"


text \<open>Whatever happens, what was printed before stays and the rest is appended.\<close>

definition extends_out :: "'a prog \<Rightarrow> bool" where
  "extends_out p = (\<forall>w. \<exists>ys. out (snd (p w)) = out w @ ys)"


text \<open>
  The PR record is open and has every field lines 53 to 59 read: \<open>merged\<close> is absent or
  false, \<open>state\<close> is not \<open>closed\<close>, and the five subscripted fields have the named values.
\<close>

definition is_open_pr :: "json \<Rightarrow> json \<Rightarrow> json \<Rightarrow> json \<Rightarrow> json \<Rightarrow> json \<Rightarrow> bool" where
  "is_open_pr pr_data pr_repo pr_author pr_branch base_branch title =
     ((\<exists>m. py_get pr_data ''merged'' JNull = Inr m \<and> \<not> py_truthy m) \<and>
      (\<exists>st. py_get pr_data ''state'' JNull = Inr st \<and> st \<noteq> JStr ''closed'') \<and>
      py_path pr_data [''head'', ''repo'', ''full_name''] = Inr pr_repo \<and>
      py_path pr_data [''head'', ''repo'', ''owner'', ''username''] = Inr pr_author \<and>
      py_path pr_data [''head'', ''ref''] = Inr pr_branch \<and>
      py_path pr_data [''base'', ''ref''] = Inr base_branch \<and>
      py_index pr_data ''title'' = Inr title)"

text \<open>
  The commands of lines 64 to 77 when each of them succeeds, from the history \<open>hist\<close>.
\<close>

definition checkout_trace :: "shell \<Rightarrow> string list \<Rightarrow> json \<Rightarrow> json \<Rightarrow> json \<Rightarrow> string \<Rightarrow> string list" where
  "checkout_trace sh hist pr_repo pr_branch base_branch local_branch =
     (let cur = py_strip (snd (sh hist ''git branch --show-current''));
          c1 = ''git branch --show-current'' #
                 (if JStr cur \<noteq> base_branch then [''git checkout '' @ py_str base_branch] else []);
          existing = map (\<lambda>b. py_lstrip ''* '' (py_strip b))
                         (py_splitlines (py_strip (snd (sh (hist @ c1) ''git branch''))))
      in c1 @ ''git branch'' #
           (if local_branch \<in> set existing then [''git branch -D '' @ local_branch] else []) @
           [''git checkout -b '' @ local_branch @ '' '' @ py_str base_branch,
            ''git pull --no-rebase --ff --no-edit --commit https://projects.blender.org/''
               @ py_str pr_repo @ '' '' @ py_str pr_branch])"

subsection \<open>Concrete inputs\<close>

text \<open>
  A repository on branch \<open>dev\<close> with local branches \<open>feat\<close>, \<open>main\<close>, \<open>old-feature\<close> and a
  branch left by an earlier checkout of PR 42; every command succeeds.
\<close>

definition demo_shell :: shell where
  "demo_shell h c =
     (if c = ''git branch --merged''
        then (0, ''  feat'' @ [CHR 0x0A] @ ''* dev'' @ [CHR 0x0A] @ ''  main'' @ [CHR 0x0A])
      else if c = ''git branch --show-current'' then (0, ''dev'' @ [CHR 0x0A])
      else if c = ''git branch -vv''
        then (0, ''  old-feature  0123abc [gone] commit msg'' @ [CHR 0x0A] @
                 ''  main 89abcde [gone] m'' @ [CHR 0x0A] @
                 ''* dev 4567def [gone] d'' @ [CHR 0x0A])
      else if c = ''git branch''
        then (0, ''* dev'' @ [CHR 0x0A] @ ''  main'' @ [CHR 0x0A] @ ''  PR/42/alice-feature-x'' @ [CHR 0x0A])
      else (0, []))"

text \<open>The same repository on branch \<open>main\<close>, without the PR branch.\<close>

definition fresh_shell :: shell where
  "fresh_shell h c =
     (if c = ''git branch --show-current'' then (0, ''main'' @ [CHR 0x0A])
      else if c = ''git branch'' then (0, ''  dev'' @ [CHR 0x0A] @ ''* main'' @ [CHR 0x0A])
      else (0, []))"

text \<open>An open PR: owner alice, source branch feature-x, base main.\<close>

definition demo_pr :: json where
  "demo_pr = JObj
     [(''merged'', JBool False), (''state'', JStr ''open''), (''title'', JStr ''Fix x''),
      (''head'', JObj [(''ref'', JStr ''feature-x''),
                       (''repo'', JObj [(''full_name'', JStr ''alice/blender''),
                                        (''owner'', JObj [(''username'', JStr ''alice'')])])]),
      (''base'', JObj [(''ref'', JStr ''main'')])]"

section \<open>Lemmas on the model\<close>

subsection \<open>Commands issued, whatever the shell answers\<close>









subsection \<open>Tokens of a line\<close>




subsection \<open>Runs in which every command succeeds\<close>




lemma checkout_git_ok:
  assumes ok: "\<forall>h c. fst (sh h c) = 0" and t: "py_index pr_data ''title'' = Inr title"
  shows "fst (checkout_git sh n pr_data pr_repo pr_branch base local w) = Inr ()"
    and "cmds (snd (checkout_git sh n pr_data pr_repo pr_branch base local w)) =
           cmds w @ checkout_trace sh (cmds w) pr_repo pr_branch base local"
  using ok t
  by (simp_all add: checkout_git_def checkout_trace_def seq_def print_def run_cmd_def captured_def
      ret_def lift_def Let_def)

lemma checkout_pr_open:
  assumes h: "http (pr_url ow rp n) = HttpOk pr_data"
    and o: "is_open_pr pr_data pr_repo pr_author pr_branch base title"
  shows "checkout_pr sh http n ow rp w =
     checkout_git sh n pr_data pr_repo pr_branch base (local_branch_name n pr_author pr_branch)
       (w\<lparr>urls := urls w @ [pr_url ow rp n],
          out := out w @
            [Printed (colour ''95'' @ ''Pulling PR #'' @ n @ '': '' @ py_str title @ colour ''0''),
             Printed (colour ''90'' @ ''Incoming branch: '' @ py_str pr_repo @ colour ''0''),
             Printed (colour ''90'' @ ''Base branch   : '' @ py_str base @ colour ''0''),
             Printed (colour ''90'' @ ''Local branch  : '' @ local_branch_name n pr_author pr_branch @ colour ''0'')]\<rparr>)"
proof -
  from o obtain m st where
    m: "py_get pr_data ''merged'' JNull = Inr m" "\<not> py_truthy m" and
    st: "py_get pr_data ''state'' JNull = Inr st" "st \<noteq> JStr ''closed''" and
    f: "py_path pr_data [''head'', ''repo'', ''full_name''] = Inr pr_repo"
       "py_path pr_data [''head'', ''repo'', ''owner'', ''username''] = Inr pr_author"
       "py_path pr_data [''head'', ''ref''] = Inr pr_branch"
       "py_path pr_data [''base'', ''ref''] = Inr base"
       "py_index pr_data ''title'' = Inr title"
    by (auto simp: is_open_pr_def)
  have "checkout_pr sh http n ow rp w =
        checkout_open sh n pr_data (w\<lparr>urls := urls w @ [pr_url ow rp n]\<rparr>)"
    using h m st by (simp add: checkout_pr_def seq_def fetch_pr_json_def lift_def Let_def)
  also have "\<dots> = checkout_git sh n pr_data pr_repo pr_branch base (local_branch_name n pr_author pr_branch)
       (w\<lparr>urls := urls w @ [pr_url ow rp n],
          out := out w @
            [Printed (colour ''95'' @ ''Pulling PR #'' @ n @ '': '' @ py_str title @ colour ''0''),
             Printed (colour ''90'' @ ''Incoming branch: '' @ py_str pr_repo @ colour ''0''),
             Printed (colour ''90'' @ ''Base branch   : '' @ py_str base @ colour ''0''),
             Printed (colour ''90'' @ ''Local branch  : '' @ local_branch_name n pr_author pr_branch @ colour ''0'')]\<rparr>)"
    unfolding checkout_open_def using f
    by (simp add: seq_def lift_def print_def Let_def del: py_path.simps)
  finally show ?thesis .
qed

lemma checkout_pr_open_ok:
  assumes ok: "\<forall>h c. fst (sh h c) = 0"
    and h: "http (pr_url ow rp n) = HttpOk pr_data"
    and o: "is_open_pr pr_data pr_repo pr_author pr_branch base title"
  shows "fst (checkout_pr sh http n ow rp w) = Inr ()"
    and "issued (checkout_pr sh http n ow rp) w =
           checkout_trace sh (cmds w) pr_repo pr_branch base (local_branch_name n pr_author pr_branch)"
proof -
  from o have t: "py_index pr_data ''title'' = Inr title" by (simp add: is_open_pr_def)
  note eq = checkout_pr_open [where sh = sh and w = w and http = http and ow = ow and rp = rp and n = n, OF h o]
  show "fst (checkout_pr sh http n ow rp w) = Inr ()"
    unfolding eq by (rule checkout_git_ok(1) [OF ok t])
  show "issued (checkout_pr sh http n ow rp) w =
           checkout_trace sh (cmds w) pr_repo pr_branch base (local_branch_name n pr_author pr_branch)"
    unfolding issued_def eq by (simp add: checkout_git_ok(2) [OF ok t])
qed

subsection \<open>Commands of prune\_branches\<close>







subsection \<open>What is printed is kept\<close>

lemma extends_out_ret: "extends_out (ret x)"
  by (simp add: extends_out_def ret_def)

lemma extends_out_raise: "extends_out (raise e)"
  by (simp add: extends_out_def raise_def)

lemma extends_out_lift: "extends_out (lift r)"
  by (simp add: extends_out_def lift_def)

lemma extends_out_print: "extends_out (print s)"
  by (simp add: extends_out_def print_def)

lemma extends_out_run_cmd: "extends_out (run_cmd sh c ch cap)"
  by (simp add: extends_out_def run_cmd_def Let_def)

lemma extends_out_captured: "extends_out (captured r)"
  by (cases r) (simp_all add: captured_def extends_out_ret extends_out_raise)

lemma extends_out_seq:
  assumes m: "extends_out m" and f: "\<And>x. extends_out (f x)"
  shows "extends_out (seq m f)"
  unfolding extends_out_def
proof
  fix w
  obtain r w' where mw: "m w = (r, w')" by (cases "m w")
  from m have "\<exists>ys. out (snd (m w)) = out w @ ys" unfolding extends_out_def by (rule spec)
  with mw obtain ys where ys: "out w' = out w @ ys" by auto
  show "\<exists>zs. out (snd (seq m f w)) = out w @ zs"
  proof (cases r)
    case (Inl e)
    with mw ys show ?thesis by (simp add: seq_def)
  next
    case (Inr x)
    from f [of x] have "\<exists>zs. out (snd (f x w')) = out w' @ zs" unfolding extends_out_def by (rule spec)
    then obtain zs where "out (snd (f x w')) = out w' @ zs" by auto
    with mw ys Inr show ?thesis by (simp add: seq_def)
  qed
qed

lemma extends_out_if: "extends_out a \<Longrightarrow> extends_out b \<Longrightarrow> extends_out (if c then a else b)"
  by simp

lemma checkout_git_extends_out:
  "extends_out (checkout_git sh n pr_data pr_repo pr_branch base local)"
  unfolding checkout_git_def Let_def
  by (intro extends_out_seq extends_out_if extends_out_ret extends_out_lift extends_out_print
      extends_out_run_cmd extends_out_captured)

subsection \<open>The merged path and command names\<close>

lemma checkout_pr_merged_no_git:
  assumes "http (pr_url ow rp n) = HttpOk pr_data"
    and "py_get pr_data ''merged'' JNull = Inr m" and "py_truthy m"
  shows "cmds (snd (checkout_pr sh http n ow rp w)) = cmds w"
proof -
  obtain kvs where "pr_data = JObj kvs" using assms(2) by (cases pr_data) auto
  with assms show ?thesis
    by (cases "case map_of kvs ''merged_by'' of None \<Rightarrow> JObj [] | Some v \<Rightarrow> v")
       (simp_all add: checkout_pr_def checkout_merged_def fetch_pr_json_def seq_def lift_def print_def Let_def)
qed


lemma co_base_neq_create: "''git checkout '' @ b \<noteq> ''git checkout -b '' @ l @ '' '' @ b"
proof
  assume "''git checkout '' @ b = ''git checkout -b '' @ l @ '' '' @ b"
  then have "length (''git checkout '' @ b) = length (''git checkout -b '' @ l @ '' '' @ b)"
    by (rule arg_cong)
  then show False by simp
qed

lemma create_neq_co_base: "''git checkout -b '' @ l @ '' '' @ b \<noteq> ''git checkout '' @ b"
  using co_base_neq_create [of b l] by (rule not_sym)

subsection \<open>Facts on the concrete inputs\<close>

lemma demo_shell_ok: "\<forall>h c. fst (demo_shell h c) = 0"
  by (simp add: demo_shell_def)

lemma fresh_shell_ok: "\<forall>h c. fst (fresh_shell h c) = 0"
  by (simp add: fresh_shell_def)

lemma demo_pr_open:
  "is_open_pr demo_pr (JStr ''alice/blender'') (JStr ''alice'') (JStr ''feature-x'') (JStr ''main'') (JStr ''Fix x'')"
  by (simp add: is_open_pr_def demo_pr_def)

lemma demo_listing:
  "map (\<lambda>b. py_lstrip ''* '' (py_strip b)) (py_splitlines (py_strip (snd (demo_shell hh ''git branch'')))) =
     [''dev'', ''main'', ''PR/42/alice-feature-x'']"
  by (simp add: demo_shell_def py_splitlines_def py_strip_def py_lstrip_def py_isspace_def py_linebreak_def)

lemma fresh_listing:
  "map (\<lambda>b. py_lstrip ''* '' (py_strip b)) (py_splitlines (py_strip (snd (fresh_shell hh ''git branch'')))) =
     [''dev'', ''main'']"
  by (simp add: fresh_shell_def py_splitlines_def py_strip_def py_lstrip_def py_isspace_def py_linebreak_def)

lemma demo_current: "py_strip (snd (demo_shell hh ''git branch --show-current'')) = ''dev''"
  by (simp add: demo_shell_def py_strip_def py_isspace_def)

lemma fresh_current: "py_strip (snd (fresh_shell hh ''git branch --show-current'')) = ''main''"
  by (simp add: fresh_shell_def py_strip_def py_isspace_def)

section \<open>The claims\<close>

text \<open>
  C1. For a merged PR and for a closed, unmerged PR, \<open>checkout_pr\<close> issues no git command and
  returns normally after its message. Lemma \<open>checkout_pr_merged_no_git\<close> gives the first
  half for every merged record. The second half fails for a merged record whose \<open>merged_by\<close>
  is null: the default of \<open>get\<close> covers only the absent key, and line 46 raises
  AttributeError after two of the three lines are printed. The same record without the
  key returns normally.
\<close>

theorem checkout_pr_merged_null_merger:
  "checkout_pr sh (\<lambda>_. HttpOk (JObj [(''merged'', JBool True), (''merged_by'', JNull)]))
       ''42'' ''blender'' ''blender'' world0 =
     (Inl AttributeError,
      \<lparr>cmds = [],
       urls = [''https://projects.blender.org/api/v1/repos/blender/blender/pulls/42''],
       out = [Printed (colour ''92'' @ ''PR #42 is already merged.'' @ colour ''0''),
              Printed ''Merged at: None'']\<rparr>) \<and>
   checkout_pr sh (\<lambda>_. HttpOk (JObj [(''merged'', JBool True)]))
       ''42'' ''blender'' ''blender'' world0 =
     (Inr (),
      \<lparr>cmds = [],
       urls = [''https://projects.blender.org/api/v1/repos/blender/blender/pulls/42''],
       out = [Printed (colour ''92'' @ ''PR #42 is already merged.'' @ colour ''0''),
              Printed ''Merged at: None'', Printed ''Merged by: None'']\<rparr>)"
  by (simp add: checkout_pr_def checkout_merged_def fetch_pr_json_def pr_url_def seq_def lift_def
      print_def world0_def Let_def)

text \<open>
  C2. When the forge answers with an error status (\<open>HTTPError\<close>), the red message is printed,
  the process exits with code 1 and no git command is issued. A connection failure
  (\<open>URLError\<close>) is not caught: the script prints nothing of its own, the exception reaches the
  top level, the exit code is 1 as well, and no git command is issued either.
\<close>

theorem fetch_failure_stops_before_git:
  "(http (pr_url ow rp n) = HttpError e \<longrightarrow>
      checkout_pr sh http n ow rp w =
        (Inl (SystemExit 1),
         w\<lparr>urls := urls w @ [pr_url ow rp n],
           out := out w @ [Printed (colour ''91'' @ ''Error fetching PR data: '' @ e @ colour ''0'')]\<rparr>) \<and>
      exit_status (fst (checkout_pr sh http n ow rp w)) = 1 \<and>
      issued (checkout_pr sh http n ow rp) w = []) \<and>
   (http (pr_url ow rp n) = ConnFailure e \<longrightarrow>
      checkout_pr sh http n ow rp w = (Inl (URLError e), w\<lparr>urls := urls w @ [pr_url ow rp n]\<rparr>) \<and>
      exit_status (fst (checkout_pr sh http n ow rp w)) = 1 \<and>
      issued (checkout_pr sh http n ow rp) w = [])"
  by (simp add: checkout_pr_def fetch_pr_json_def seq_def print_def raise_def issued_def Let_def)


text \<open>Both failures on PR 42 of blender/blender.\<close>

theorem fetch_failure_stops_before_git_witness:
  "(\<lambda>_. HttpError ''HTTP Error 404: Not Found'') (pr_url ''blender'' ''blender'' ''42'') = HttpError ''HTTP Error 404: Not Found'' \<and>
   checkout_pr demo_shell (\<lambda>_. HttpError ''HTTP Error 404: Not Found'') ''42'' ''blender'' ''blender'' world0 =
     (Inl (SystemExit 1),
      \<lparr>cmds = [],
       urls = [''https://projects.blender.org/api/v1/repos/blender/blender/pulls/42''],
       out = [Printed (colour ''91'' @ ''Error fetching PR data: HTTP Error 404: Not Found'' @ colour ''0'')]\<rparr>) \<and>
   (\<lambda>_. ConnFailure ''timed out'') (pr_url ''blender'' ''blender'' ''42'') = ConnFailure ''timed out'' \<and>
   checkout_pr demo_shell (\<lambda>_. ConnFailure ''timed out'') ''42'' ''blender'' ''blender'' world0 =
     (Inl (URLError ''timed out''),
      \<lparr>cmds = [],
       urls = [''https://projects.blender.org/api/v1/repos/blender/blender/pulls/42''],
       out = []\<rparr>)"
  using fetch_failure_stops_before_git [of "\<lambda>_. HttpError ''HTTP Error 404: Not Found''" "''blender''" "''blender''" "''42''" "''HTTP Error 404: Not Found''" demo_shell world0]
    fetch_failure_stops_before_git [of "\<lambda>_. ConnFailure ''timed out''" "''blender''" "''blender''" "''42''" "''timed out''" demo_shell world0]
  by (simp add: world0_def pr_url_def)


text \<open>
  C2 as first stated asks for the message on a connection failure too; none is printed and
  the exception is not \<open>SystemExit\<close>.
\<close>

theorem connection_failure_counterexample:
  "fetch_pr_json (\<lambda>_. ConnFailure ''timed out'') ''blender'' ''blender'' ''42'' world0 =
     (Inl (URLError ''timed out''),
      \<lparr>cmds = [],
       urls = [''https://projects.blender.org/api/v1/repos/blender/blender/pulls/42''],
       out = []\<rparr>)"
  by (simp add: fetch_pr_json_def pr_url_def world0_def Let_def)





text \<open>
  C5. For an open PR whose \<open>head.repo.owner.username\<close> and \<open>head.ref\<close> are the strings
  \<open>author\<close> and \<open>source_branch\<close>, the local branch name is
  \<open>PR/{pr_number}/{author}-{source_branch}\<close>: it is the name printed in the banner and,
  when the git commands succeed, the name the branch is created with.
\<close>

theorem local_branch_name_format:
  assumes "http (pr_url ow rp n) = HttpOk pr_data"
    and "is_open_pr pr_data pr_repo (JStr author) (JStr source_branch) base title"
  shows "local_branch_name n (JStr author) (JStr source_branch) =
           ''PR/'' @ n @ ''/'' @ author @ ''-'' @ source_branch \<and>
         Printed (colour ''90'' @ ''Local branch  : PR/'' @ n @ ''/'' @ author @ ''-'' @ source_branch @ colour ''0'')
           \<in> set (out (snd (checkout_pr sh http n ow rp w))) \<and>
         ((\<forall>h c. fst (sh h c) = 0) \<longrightarrow>
            ''git checkout -b PR/'' @ n @ ''/'' @ author @ ''-'' @ source_branch @ '' '' @ py_str base
              \<in> set (issued (checkout_pr sh http n ow rp) w))"
proof (intro conjI impI)
  show "local_branch_name n (JStr author) (JStr source_branch) =
           ''PR/'' @ n @ ''/'' @ author @ ''-'' @ source_branch"
    by (simp add: local_branch_name_def)
next
  define w1 where "w1 = w\<lparr>urls := urls w @ [pr_url ow rp n],
          out := out w @
            [Printed (colour ''95'' @ ''Pulling PR #'' @ n @ '': '' @ py_str title @ colour ''0''),
             Printed (colour ''90'' @ ''Incoming branch: '' @ py_str pr_repo @ colour ''0''),
             Printed (colour ''90'' @ ''Base branch   : '' @ py_str base @ colour ''0''),
             Printed (colour ''90'' @ ''Local branch  : '' @ local_branch_name n (JStr author) (JStr source_branch) @ colour ''0'')]\<rparr>"
  have eq: "checkout_pr sh http n ow rp w =
      checkout_git sh n pr_data pr_repo (JStr source_branch) base
        (local_branch_name n (JStr author) (JStr source_branch)) w1"
    unfolding w1_def using assms by (rule checkout_pr_open)
  have "\<exists>ys. out (snd (checkout_git sh n pr_data pr_repo (JStr source_branch) base
                 (local_branch_name n (JStr author) (JStr source_branch)) w1)) = out w1 @ ys"
    using checkout_git_extends_out unfolding extends_out_def by (rule spec)
  then obtain ys where "out (snd (checkout_pr sh http n ow rp w)) = out w1 @ ys"
    unfolding eq by (rule exE)
  moreover have "Printed (colour ''90'' @ ''Local branch  : '' @ local_branch_name n (JStr author) (JStr source_branch) @ colour ''0'')
      \<in> set (out w1)"
    by (simp add: w1_def)
  ultimately show "Printed (colour ''90'' @ ''Local branch  : PR/'' @ n @ ''/'' @ author @ ''-'' @ source_branch @ colour ''0'')
           \<in> set (out (snd (checkout_pr sh http n ow rp w)))"
    by (simp add: local_branch_name_def)
next
  assume ok: "\<forall>h c. fst (sh h c) = 0"
  show "''git checkout -b PR/'' @ n @ ''/'' @ author @ ''-'' @ source_branch @ '' '' @ py_str base
              \<in> set (issued (checkout_pr sh http n ow rp) w)"
    unfolding checkout_pr_open_ok(2) [where sh = sh and w = w and http = http and ow = ow and rp = rp and n = n,
      OF ok assms]
    by (simp add: checkout_trace_def local_branch_name_def Let_def)
qed

text \<open>
  PR 42 of alice, source branch feature-x, base main.
\<close>

theorem local_branch_name_format_witness:
  "(\<lambda>_. HttpOk demo_pr) (pr_url ''blender'' ''blender'' ''42'') = HttpOk demo_pr \<and>
   is_open_pr demo_pr (JStr ''alice/blender'') (JStr ''alice'') (JStr ''feature-x'') (JStr ''main'') (JStr ''Fix x'') \<and>
   local_branch_name ''42'' (JStr ''alice'') (JStr ''feature-x'') = ''PR/42/alice-feature-x'' \<and>
   Printed (colour ''90'' @ ''Local branch  : PR/42/alice-feature-x'' @ colour ''0'')
     \<in> set (out (snd (checkout_pr demo_shell (\<lambda>_. HttpOk demo_pr) ''42'' ''blender'' ''blender'' world0))) \<and>
   (\<forall>h c. fst (demo_shell h c) = 0) \<and>
   ''git checkout -b PR/42/alice-feature-x main''
     \<in> set (issued (checkout_pr demo_shell (\<lambda>_. HttpOk demo_pr) ''42'' ''blender'' ''blender'') world0)"
  using local_branch_name_format [where http = "\<lambda>_. HttpOk demo_pr" and ow = "''blender''" and rp = "''blender''"
      and n = "''42''" and sh = demo_shell and w = world0, OF _ demo_pr_open]
    demo_pr_open demo_shell_ok
  by simp

text \<open>
  C6. For an open PR and a shell whose commands succeed: if the local branch name is among
  the lines of \<open>git branch\<close> (each stripped, then freed of leading stars and blanks),
  \<open>git branch -D\<close> of it is issued before the create-and-checkout command; if it is not,
  no \<open>git branch -D\<close> is issued and the create-and-checkout command still is.
\<close>

theorem existing_branch_deleted_before_create:
  assumes ok: "\<forall>h c. fst (sh h c) = 0"
    and h: "http (pr_url ow rp n) = HttpOk pr_data"
    and o: "is_open_pr pr_data pr_repo pr_author pr_branch base title"
  shows
    "(let cur = py_strip (snd (sh (cmds w) ''git branch --show-current''));
          hist = cmds w @ ''git branch --show-current'' #
                   (if JStr cur \<noteq> base then [''git checkout '' @ py_str base] else []);
          existing = map (\<lambda>b. py_lstrip ''* '' (py_strip b))
                         (py_splitlines (py_strip (snd (sh hist ''git branch''))));
          local_branch = local_branch_name n pr_author pr_branch;
          create = ''git checkout -b '' @ local_branch @ '' '' @ py_str base;
          tr = issued (checkout_pr sh http n ow rp) w
      in (local_branch \<in> set existing \<longrightarrow>
            (\<exists>pre post. tr = pre @ (''git branch -D '' @ local_branch) # post \<and>
                        create \<notin> set pre \<and> create \<in> set post)) \<and>
         (local_branch \<notin> set existing \<longrightarrow>
            list_all (\<lambda>c. take 14 c \<noteq> ''git branch -D '') tr \<and> create \<in> set tr))"
proof -
  define cur where "cur = py_strip (snd (sh (cmds w) ''git branch --show-current''))"
  define c1 where "c1 = ''git branch --show-current'' #
                   (if JStr cur \<noteq> base then [''git checkout '' @ py_str base] else [])"
  define existing where "existing = map (\<lambda>b. py_lstrip ''* '' (py_strip b))
                         (py_splitlines (py_strip (snd (sh (cmds w @ c1) ''git branch''))))"
  define local_branch where "local_branch = local_branch_name n pr_author pr_branch"
  define create where "create = ''git checkout -b '' @ local_branch @ '' '' @ py_str base"
  define pull where "pull = ''git pull --no-rebase --ff --no-edit --commit https://projects.blender.org/''
               @ py_str pr_repo @ '' '' @ py_str pr_branch"
  have tr: "issued (checkout_pr sh http n ow rp) w =
        c1 @ ''git branch'' # (if local_branch \<in> set existing then [''git branch -D '' @ local_branch] else [])
           @ [create, pull]"
    unfolding checkout_pr_open_ok(2) [where sh = sh and w = w and http = http and ow = ow and rp = rp and n = n,
      OF ok h o]
    by (simp add: checkout_trace_def Let_def cur_def c1_def existing_def local_branch_def create_def pull_def)
  have pre: "create \<notin> set (c1 @ [''git branch''])"
    using co_base_neq_create [of "py_str base" local_branch]
    by (auto simp: c1_def create_def)
  have nodel: "list_all (\<lambda>c. take 14 c \<noteq> ''git branch -D '') (c1 @ [''git branch'', create, pull])"
    by (simp add: c1_def create_def pull_def)
  have A: "local_branch \<in> set existing \<longrightarrow>
            (\<exists>pre post. issued (checkout_pr sh http n ow rp) w = pre @ (''git branch -D '' @ local_branch) # post \<and>
                        create \<notin> set pre \<and> create \<in> set post)"
  proof
    assume "local_branch \<in> set existing"
    with tr have "issued (checkout_pr sh http n ow rp) w =
        (c1 @ [''git branch'']) @ (''git branch -D '' @ local_branch) # [create, pull]" by simp
    with pre show "\<exists>pre post. issued (checkout_pr sh http n ow rp) w = pre @ (''git branch -D '' @ local_branch) # post \<and>
                        create \<notin> set pre \<and> create \<in> set post"
      by (intro exI [of _ "c1 @ [''git branch'']"] exI [of _ "[create, pull]"]) simp
  qed
  have B: "local_branch \<notin> set existing \<longrightarrow>
            list_all (\<lambda>c. take 14 c \<noteq> ''git branch -D '') (issued (checkout_pr sh http n ow rp) w) \<and>
            create \<in> set (issued (checkout_pr sh http n ow rp) w)"
    using tr nodel by simp
  from A B show ?thesis
    unfolding Let_def cur_def c1_def existing_def local_branch_def create_def
    by simp
qed

text \<open>
  The branch of PR 42 exists in the first repository and not in the second.
\<close>

theorem existing_branch_deleted_before_create_witness:
  "(\<forall>h c. fst (demo_shell h c) = 0) \<and> (\<forall>h c. fst (fresh_shell h c) = 0) \<and>
   (\<lambda>_. HttpOk demo_pr) (pr_url ''blender'' ''blender'' ''42'') = HttpOk demo_pr \<and>
   is_open_pr demo_pr (JStr ''alice/blender'') (JStr ''alice'') (JStr ''feature-x'') (JStr ''main'') (JStr ''Fix x'') \<and>
   (\<exists>pre post. issued (checkout_pr demo_shell (\<lambda>_. HttpOk demo_pr) ''42'' ''blender'' ''blender'') world0 =
        pre @ ''git branch -D PR/42/alice-feature-x'' # post \<and>
      ''git checkout -b PR/42/alice-feature-x main'' \<notin> set pre \<and>
      ''git checkout -b PR/42/alice-feature-x main'' \<in> set post) \<and>
   list_all (\<lambda>c. take 14 c \<noteq> ''git branch -D '')
     (issued (checkout_pr fresh_shell (\<lambda>_. HttpOk demo_pr) ''42'' ''blender'' ''blender'') world0) \<and>
   ''git checkout -b PR/42/alice-feature-x main''
     \<in> set (issued (checkout_pr fresh_shell (\<lambda>_. HttpOk demo_pr) ''42'' ''blender'' ''blender'') world0)"
  using existing_branch_deleted_before_create [where http = "\<lambda>_. HttpOk demo_pr" and ow = "''blender''"
      and rp = "''blender''" and n = "''42''" and sh = demo_shell and w = world0, OF demo_shell_ok _ demo_pr_open]
    existing_branch_deleted_before_create [where http = "\<lambda>_. HttpOk demo_pr" and ow = "''blender''"
      and rp = "''blender''" and n = "''42''" and sh = fresh_shell and w = world0, OF fresh_shell_ok _ demo_pr_open]
    demo_pr_open demo_shell_ok fresh_shell_ok
  by (simp add: Let_def demo_listing fresh_listing demo_current fresh_current local_branch_name_def)

text \<open>
  C7. For an open PR and a shell whose commands succeed: if the stripped output of
  \<open>git branch --show-current\<close> equals the base branch, no checkout of the base branch is
  issued; if it differs, the checkout of the base branch is issued exactly once, and before
  the branch is created.
\<close>

theorem base_checkout_only_when_needed:
  assumes ok: "\<forall>h c. fst (sh h c) = 0"
    and h: "http (pr_url ow rp n) = HttpOk pr_data"
    and o: "is_open_pr pr_data pr_repo pr_author pr_branch base title"
  shows
    "(let cur = py_strip (snd (sh (cmds w) ''git branch --show-current''));
          co = ''git checkout '' @ py_str base;
          create = ''git checkout -b '' @ local_branch_name n pr_author pr_branch @ '' '' @ py_str base;
          tr = issued (checkout_pr sh http n ow rp) w
      in (JStr cur = base \<longrightarrow> co \<notin> set tr) \<and>
         (JStr cur \<noteq> base \<longrightarrow>
            count_list tr co = 1 \<and>
            (\<exists>pre post. tr = pre @ co # post \<and>
                        list_all (\<lambda>c. take 16 c \<noteq> ''git checkout -b '') pre \<and> create \<in> set post)))"
proof -
  define cur where "cur = py_strip (snd (sh (cmds w) ''git branch --show-current''))"
  define co where "co = ''git checkout '' @ py_str base"
  define local_branch where "local_branch = local_branch_name n pr_author pr_branch"
  define create where "create = ''git checkout -b '' @ local_branch @ '' '' @ py_str base"
  define rest where "rest = ''git branch'' #
      (if local_branch \<in> set (map (\<lambda>b. py_lstrip ''* '' (py_strip b))
            (py_splitlines (py_strip (snd (sh (cmds w @ ''git branch --show-current'' #
                   (if JStr cur \<noteq> base then [co] else [])) ''git branch'')))))
       then [''git branch -D '' @ local_branch] else []) @
      [create, ''git pull --no-rebase --ff --no-edit --commit https://projects.blender.org/''
               @ py_str pr_repo @ '' '' @ py_str pr_branch]"
  have tr: "issued (checkout_pr sh http n ow rp) w =
        ''git branch --show-current'' # (if JStr cur \<noteq> base then [co] else []) @ rest"
    unfolding checkout_pr_open_ok(2) [where sh = sh and w = w and http = http and ow = ow and rp = rp and n = n,
      OF ok h o]
    by (simp add: checkout_trace_def Let_def cur_def co_def local_branch_def create_def rest_def)
  have neq: "create \<noteq> co" "co \<noteq> create"
    using co_base_neq_create [of "py_str base" local_branch] by (auto simp: create_def co_def)
  have co_rest: "co \<notin> set rest"
    using neq by (auto simp: rest_def co_def)
  have cr_rest: "create \<in> set rest"
    by (simp add: rest_def)
  have co_sc: "co \<noteq> ''git branch --show-current''"
    by (simp add: co_def)
  have A: "JStr cur = base \<longrightarrow> co \<notin> set (issued (checkout_pr sh http n ow rp) w)"
    using tr co_rest co_sc by simp
  have cnt: "count_list rest co = 0"
    using co_rest by (simp add: count_list_0_iff)
  have B: "JStr cur \<noteq> base \<longrightarrow>
            count_list (issued (checkout_pr sh http n ow rp) w) co = 1 \<and>
            (\<exists>pre post. issued (checkout_pr sh http n ow rp) w = pre @ co # post \<and>
                        list_all (\<lambda>c. take 16 c \<noteq> ''git checkout -b '') pre \<and> create \<in> set post)"
  proof
    assume d: "JStr cur \<noteq> base"
    with tr have t2: "issued (checkout_pr sh http n ow rp) w = [''git branch --show-current''] @ co # rest"
      by simp
    have "count_list (issued (checkout_pr sh http n ow rp) w) co = 1"
      unfolding t2 using cnt co_sc by simp
    moreover have "\<exists>pre post. issued (checkout_pr sh http n ow rp) w = pre @ co # post \<and>
                        list_all (\<lambda>c. take 16 c \<noteq> ''git checkout -b '') pre \<and> create \<in> set post"
      using t2 cr_rest
      by (intro exI [of _ "[''git branch --show-current'']"] exI [of _ rest]) simp
    ultimately show "count_list (issued (checkout_pr sh http n ow rp) w) co = 1 \<and>
            (\<exists>pre post. issued (checkout_pr sh http n ow rp) w = pre @ co # post \<and>
                        list_all (\<lambda>c. take 16 c \<noteq> ''git checkout -b '') pre \<and> create \<in> set post)"
      by (rule conjI)
  qed
  from A B show ?thesis
    unfolding Let_def cur_def co_def create_def local_branch_def by simp
qed

text \<open>
  On \<open>main\<close> nothing is checked out first; on \<open>dev\<close> the base is.
\<close>

theorem base_checkout_only_when_needed_witness:
  "(\<forall>h c. fst (demo_shell h c) = 0) \<and> (\<forall>h c. fst (fresh_shell h c) = 0) \<and>
   (\<lambda>_. HttpOk demo_pr) (pr_url ''blender'' ''blender'' ''42'') = HttpOk demo_pr \<and>
   is_open_pr demo_pr (JStr ''alice/blender'') (JStr ''alice'') (JStr ''feature-x'') (JStr ''main'') (JStr ''Fix x'') \<and>
   ''git checkout main'' \<notin> set (issued (checkout_pr fresh_shell (\<lambda>_. HttpOk demo_pr) ''42'' ''blender'' ''blender'') world0) \<and>
   count_list (issued (checkout_pr demo_shell (\<lambda>_. HttpOk demo_pr) ''42'' ''blender'' ''blender'') world0)
     ''git checkout main'' = 1 \<and>
   (\<exists>pre post. issued (checkout_pr demo_shell (\<lambda>_. HttpOk demo_pr) ''42'' ''blender'' ''blender'') world0 =
        pre @ ''git checkout main'' # post \<and>
      list_all (\<lambda>c. take 16 c \<noteq> ''git checkout -b '') pre \<and>
      ''git checkout -b PR/42/alice-feature-x main'' \<in> set post)"
  using base_checkout_only_when_needed [where http = "\<lambda>_. HttpOk demo_pr" and ow = "''blender''"
      and rp = "''blender''" and n = "''42''" and sh = demo_shell and w = world0, OF demo_shell_ok _ demo_pr_open]
    base_checkout_only_when_needed [where http = "\<lambda>_. HttpOk demo_pr" and ow = "''blender''"
      and rp = "''blender''" and n = "''42''" and sh = fresh_shell and w = world0, OF fresh_shell_ok _ demo_pr_open]
    demo_pr_open demo_shell_ok fresh_shell_ok
  by (simp add: Let_def demo_current fresh_current local_branch_name_def)

text \<open>
  C8. With \<open>--prune\<close> the prune flow runs, whatever \<open>pr_number\<close> is. Without it, a
  non-empty \<open>pr_number\<close> runs the checkout flow with the owner and repo of the namespace
  (both \<open>blender\<close> by default); an absent or empty \<open>pr_number\<close> prints the help, touches
  neither git nor the forge, and the process exits with code 0.
\<close>

theorem main_dispatch:
  "(prune a \<longrightarrow> main sh http a = prune_branches sh) \<and>
   (\<not> prune a \<longrightarrow>
      (\<forall>n. pr_number a = Some n \<and> n \<noteq> [] \<longrightarrow> main sh http a = checkout_pr sh http n (owner a) (repo a))) \<and>
   (\<not> prune a \<and> (pr_number a = None \<or> pr_number a = Some []) \<longrightarrow>
      main sh http a w = (Inr (), w\<lparr>out := out w @ [HelpText]\<rparr>) \<and>
      exit_status (fst (main sh http a w)) = 0) \<and>
   owner parser_defaults = ''blender'' \<and> repo parser_defaults = ''blender''"
  by (auto simp: main_def print_help_def parser_defaults_def)

text \<open>
  The three branches of the dispatch.
\<close>

theorem main_dispatch_witness:
  "prune (parser_defaults\<lparr>pr_number := Some ''42'', prune := True\<rparr>) \<and>
   main demo_shell (\<lambda>_. HttpOk demo_pr) (parser_defaults\<lparr>pr_number := Some ''42'', prune := True\<rparr>) =
     prune_branches demo_shell \<and>
   \<not> prune (parser_defaults\<lparr>pr_number := Some ''42''\<rparr>) \<and>
   main demo_shell (\<lambda>_. HttpOk demo_pr) (parser_defaults\<lparr>pr_number := Some ''42''\<rparr>) =
     checkout_pr demo_shell (\<lambda>_. HttpOk demo_pr) ''42'' ''blender'' ''blender'' \<and>
   \<not> prune parser_defaults \<and> pr_number parser_defaults = None \<and>
   main demo_shell (\<lambda>_. HttpOk demo_pr) parser_defaults world0 =
     (Inr (), \<lparr>cmds = [], urls = [], out = [HelpText]\<rparr>) \<and>
   exit_status (fst (main demo_shell (\<lambda>_. HttpOk demo_pr) parser_defaults world0)) = 0"
  using main_dispatch [of "parser_defaults\<lparr>pr_number := Some ''42'', prune := True\<rparr>" demo_shell "\<lambda>_. HttpOk demo_pr" world0]
    main_dispatch [of "parser_defaults\<lparr>pr_number := Some ''42''\<rparr>" demo_shell "\<lambda>_. HttpOk demo_pr" world0]
    main_dispatch [of parser_defaults demo_shell "\<lambda>_. HttpOk demo_pr" world0]
  by (simp add: parser_defaults_def world0_def)

text \<open>
  C8 as first stated runs the checkout flow whenever \<open>pr_number\<close> is given; given as the
  empty string it is false in line 126, the help is printed and the forge, which the
  checkout flow would ask, is not.
\<close>

theorem empty_pr_number_counterexample:
  "main demo_shell (\<lambda>_. HttpOk demo_pr) (parser_defaults\<lparr>pr_number := Some []\<rparr>) world0 =
     (Inr (), \<lparr>cmds = [], urls = [], out = [HelpText]\<rparr>) \<and>
   urls (snd (checkout_pr demo_shell (\<lambda>_. HttpOk demo_pr) [] ''blender'' ''blender'' world0)) =
     [''https://projects.blender.org/api/v1/repos/blender/blender/pulls/'']"
proof
  show "main demo_shell (\<lambda>_. HttpOk demo_pr) (parser_defaults\<lparr>pr_number := Some []\<rparr>) world0 =
     (Inr (), \<lparr>cmds = [], urls = [], out = [HelpText]\<rparr>)"
    by (simp add: main_def print_help_def parser_defaults_def world0_def)
  show "urls (snd (checkout_pr demo_shell (\<lambda>_. HttpOk demo_pr) [] ''blender'' ''blender'' world0)) =
     [''https://projects.blender.org/api/v1/repos/blender/blender/pulls/'']"
    by (simp add: checkout_pr_def checkout_open_def checkout_git_def fetch_pr_json_def seq_def lift_def print_def
        run_cmd_def captured_def ret_def Let_def demo_pr_def demo_shell_def world0_def pr_url_def)
qed

text \<open>
  C9. For a JSON object from the forge: \<open>merged\<close>, \<open>merged_at\<close>, \<open>merged_by\<close> and
  \<open>state\<close> may be absent, and so may \<open>full_name\<close> inside an object \<open>merged_by\<close>; an
  absent one reads as None and prints as \<open>None\<close>. On the path of an open PR, \<open>head\<close>,
  \<open>base\<close> and \<open>title\<close> are subscripted: when one of them is absent, KeyError is raised
  with nothing printed and no git command issued.
\<close>

theorem tolerated_and_required_fields:
  assumes h: "http (pr_url ow rp n) = HttpOk (JObj kvs)"
  shows
    "(py_truthy (case map_of kvs ''merged'' of None \<Rightarrow> JNull | Some v \<Rightarrow> v) \<longrightarrow>
        (case map_of kvs ''merged_by'' of None \<Rightarrow> JObj [] | Some v \<Rightarrow> v) = JObj mb \<longrightarrow>
        checkout_pr sh http n ow rp w =
          (Inr (), w\<lparr>urls := urls w @ [pr_url ow rp n],
                     out := out w @
                       [Printed (colour ''92'' @ ''PR #'' @ n @ '' is already merged.'' @ colour ''0''),
                        Printed (''Merged at: '' @ py_str (case map_of kvs ''merged_at'' of None \<Rightarrow> JNull | Some v \<Rightarrow> v)),
                        Printed (''Merged by: '' @ py_str (case map_of mb ''full_name'' of None \<Rightarrow> JNull | Some v \<Rightarrow> v))]\<rparr>)) \<and>
     (\<not> py_truthy (case map_of kvs ''merged'' of None \<Rightarrow> JNull | Some v \<Rightarrow> v) \<longrightarrow>
        map_of kvs ''state'' = Some (JStr ''closed'') \<longrightarrow>
        checkout_pr sh http n ow rp w =
          (Inr (), w\<lparr>urls := urls w @ [pr_url ow rp n],
                     out := out w @ [Printed (colour ''91'' @ ''PR #'' @ n @ '' is closed.'' @ colour ''0'')]\<rparr>)) \<and>
     (\<not> py_truthy (case map_of kvs ''merged'' of None \<Rightarrow> JNull | Some v \<Rightarrow> v) \<longrightarrow>
        map_of kvs ''state'' \<noteq> Some (JStr ''closed'') \<longrightarrow>
        (map_of kvs ''head'' = None \<longrightarrow>
           checkout_pr sh http n ow rp w = (Inl (KeyError ''head''), w\<lparr>urls := urls w @ [pr_url ow rp n]\<rparr>)) \<and>
        (py_path (JObj kvs) [''head'', ''repo'', ''full_name''] = Inr pr_repo \<longrightarrow>
         py_path (JObj kvs) [''head'', ''repo'', ''owner'', ''username''] = Inr pr_author \<longrightarrow>
         py_path (JObj kvs) [''head'', ''ref''] = Inr pr_branch \<longrightarrow>
           (map_of kvs ''base'' = None \<longrightarrow>
              checkout_pr sh http n ow rp w = (Inl (KeyError ''base''), w\<lparr>urls := urls w @ [pr_url ow rp n]\<rparr>)) \<and>
           (py_path (JObj kvs) [''base'', ''ref''] = Inr base \<longrightarrow> map_of kvs ''title'' = None \<longrightarrow>
              checkout_pr sh http n ow rp w = (Inl (KeyError ''title''), w\<lparr>urls := urls w @ [pr_url ow rp n]\<rparr>))))"
proof -
  have f: "fetch_pr_json http ow rp n w = (Inr (JObj kvs), w\<lparr>urls := urls w @ [pr_url ow rp n]\<rparr>)"
    using h by (simp add: fetch_pr_json_def Let_def)
  have A: "py_truthy (case map_of kvs ''merged'' of None \<Rightarrow> JNull | Some v \<Rightarrow> v) \<Longrightarrow>
        (case map_of kvs ''merged_by'' of None \<Rightarrow> JObj [] | Some v \<Rightarrow> v) = JObj mb \<Longrightarrow>
        checkout_pr sh http n ow rp w =
          (Inr (), w\<lparr>urls := urls w @ [pr_url ow rp n],
                     out := out w @
                       [Printed (colour ''92'' @ ''PR #'' @ n @ '' is already merged.'' @ colour ''0''),
                        Printed (''Merged at: '' @ py_str (case map_of kvs ''merged_at'' of None \<Rightarrow> JNull | Some v \<Rightarrow> v)),
                        Printed (''Merged by: '' @ py_str (case map_of mb ''full_name'' of None \<Rightarrow> JNull | Some v \<Rightarrow> v))]\<rparr>)"
    by (simp add: checkout_pr_def checkout_merged_def seq_def f lift_def print_def)
  have B: "\<not> py_truthy (case map_of kvs ''merged'' of None \<Rightarrow> JNull | Some v \<Rightarrow> v) \<Longrightarrow>
        map_of kvs ''state'' = Some (JStr ''closed'') \<Longrightarrow>
        checkout_pr sh http n ow rp w =
          (Inr (), w\<lparr>urls := urls w @ [pr_url ow rp n],
                     out := out w @ [Printed (colour ''91'' @ ''PR #'' @ n @ '' is closed.'' @ colour ''0'')]\<rparr>)"
    by (simp add: checkout_pr_def seq_def f lift_def print_def)
  have C: "checkout_pr sh http n ow rp w = checkout_open sh n (JObj kvs) (w\<lparr>urls := urls w @ [pr_url ow rp n]\<rparr>)"
    if "\<not> py_truthy (case map_of kvs ''merged'' of None \<Rightarrow> JNull | Some v \<Rightarrow> v)"
      and "map_of kvs ''state'' \<noteq> Some (JStr ''closed'')"
    using that by (auto simp: checkout_pr_def seq_def f lift_def split: option.splits)
  have C1: "map_of kvs ''head'' = None \<Longrightarrow>
      checkout_open sh n (JObj kvs) w1 = (Inl (KeyError ''head''), w1)" for w1
    by (simp add: checkout_open_def seq_def lift_def)
  have C2: "py_path (JObj kvs) [''head'', ''repo'', ''full_name''] = Inr pr_repo \<Longrightarrow>
         py_path (JObj kvs) [''head'', ''repo'', ''owner'', ''username''] = Inr pr_author \<Longrightarrow>
         py_path (JObj kvs) [''head'', ''ref''] = Inr pr_branch \<Longrightarrow> map_of kvs ''base'' = None \<Longrightarrow>
      checkout_open sh n (JObj kvs) w1 = (Inl (KeyError ''base''), w1)" for w1
    unfolding checkout_open_def by (simp add: seq_def lift_def del: py_path.simps) simp
  have C3: "py_path (JObj kvs) [''head'', ''repo'', ''full_name''] = Inr pr_repo \<Longrightarrow>
         py_path (JObj kvs) [''head'', ''repo'', ''owner'', ''username''] = Inr pr_author \<Longrightarrow>
         py_path (JObj kvs) [''head'', ''ref''] = Inr pr_branch \<Longrightarrow>
         py_path (JObj kvs) [''base'', ''ref''] = Inr base \<Longrightarrow> map_of kvs ''title'' = None \<Longrightarrow>
      checkout_open sh n (JObj kvs) w1 = (Inl (KeyError ''title''), w1)" for w1
    unfolding checkout_open_def by (simp add: seq_def lift_def Let_def del: py_path.simps)
  show ?thesis
    using A B C C1 C2 C3 by (intro conjI impI) simp_all
qed

text \<open>
  One record for each case: merged with nothing else, closed, and open without head,
  without base, without title.
\<close>

theorem tolerated_and_required_fields_witness:
  "(\<lambda>_. HttpOk (JObj [(''merged'', JBool True)])) (pr_url ''blender'' ''blender'' ''42'') =
     HttpOk (JObj [(''merged'', JBool True)]) \<and>
   py_truthy (case map_of [(''merged'', JBool True)] ''merged'' of None \<Rightarrow> JNull | Some v \<Rightarrow> v) \<and>
   (case map_of [(''merged'', JBool True)] ''merged_by'' of None \<Rightarrow> JObj [] | Some v \<Rightarrow> v) = JObj [] \<and>
   checkout_pr demo_shell (\<lambda>_. HttpOk (JObj [(''merged'', JBool True)])) ''42'' ''blender'' ''blender'' world0 =
     (Inr (),
      \<lparr>cmds = [],
       urls = [''https://projects.blender.org/api/v1/repos/blender/blender/pulls/42''],
       out = [Printed (colour ''92'' @ ''PR #42 is already merged.'' @ colour ''0''),
              Printed ''Merged at: None'', Printed ''Merged by: None'']\<rparr>) \<and>
   map_of [(''state'', JStr ''closed'')] ''state'' = Some (JStr ''closed'') \<and>
   checkout_pr demo_shell (\<lambda>_. HttpOk (JObj [(''state'', JStr ''closed'')])) ''42'' ''blender'' ''blender'' world0 =
     (Inr (),
      \<lparr>cmds = [],
       urls = [''https://projects.blender.org/api/v1/repos/blender/blender/pulls/42''],
       out = [Printed (colour ''91'' @ ''PR #42 is closed.'' @ colour ''0'')]\<rparr>) \<and>
   map_of [(''state'', JStr ''open'')] ''head'' = None \<and>
   checkout_pr demo_shell (\<lambda>_. HttpOk (JObj [(''state'', JStr ''open'')])) ''42'' ''blender'' ''blender'' world0 =
     (Inl (KeyError ''head''),
      \<lparr>cmds = [],
       urls = [''https://projects.blender.org/api/v1/repos/blender/blender/pulls/42''],
       out = []\<rparr>) \<and>
   py_path (JObj [(''head'', JObj [(''ref'', JStr ''feature-x''),
                       (''repo'', JObj [(''full_name'', JStr ''alice/blender''),
                                        (''owner'', JObj [(''username'', JStr ''alice'')])])])])
      [''head'', ''ref''] = Inr (JStr ''feature-x'') \<and>
   checkout_pr demo_shell
      (\<lambda>_. HttpOk (JObj [(''head'', JObj [(''ref'', JStr ''feature-x''),
                       (''repo'', JObj [(''full_name'', JStr ''alice/blender''),
                                        (''owner'', JObj [(''username'', JStr ''alice'')])])])]))
      ''42'' ''blender'' ''blender'' world0 =
     (Inl (KeyError ''base''),
      \<lparr>cmds = [],
       urls = [''https://projects.blender.org/api/v1/repos/blender/blender/pulls/42''],
       out = []\<rparr>) \<and>
   py_path (JObj [(''head'', JObj [(''ref'', JStr ''feature-x''),
                       (''repo'', JObj [(''full_name'', JStr ''alice/blender''),
                                        (''owner'', JObj [(''username'', JStr ''alice'')])])]),
                  (''base'', JObj [(''ref'', JStr ''main'')])])
      [''base'', ''ref''] = Inr (JStr ''main'') \<and>
   checkout_pr demo_shell
      (\<lambda>_. HttpOk (JObj [(''head'', JObj [(''ref'', JStr ''feature-x''),
                       (''repo'', JObj [(''full_name'', JStr ''alice/blender''),
                                        (''owner'', JObj [(''username'', JStr ''alice'')])])]),
                  (''base'', JObj [(''ref'', JStr ''main'')])]))
      ''42'' ''blender'' ''blender'' world0 =
     (Inl (KeyError ''title''),
      \<lparr>cmds = [],
       urls = [''https://projects.blender.org/api/v1/repos/blender/blender/pulls/42''],
       out = []\<rparr>)"
  using
    tolerated_and_required_fields [where http = "\<lambda>_. HttpOk (JObj [(''merged'', JBool True)])"
      and kvs = "[(''merged'', JBool True)]" and mb = "[]" and ow = "''blender''" and rp = "''blender''"
      and n = "''42''" and sh = demo_shell and w = world0]
    tolerated_and_required_fields [where http = "\<lambda>_. HttpOk (JObj [(''state'', JStr ''closed'')])"
      and kvs = "[(''state'', JStr ''closed'')]" and ow = "''blender''" and rp = "''blender''"
      and n = "''42''" and sh = demo_shell and w = world0]
    tolerated_and_required_fields [where http = "\<lambda>_. HttpOk (JObj [(''state'', JStr ''open'')])"
      and kvs = "[(''state'', JStr ''open'')]" and ow = "''blender''" and rp = "''blender''"
      and n = "''42''" and sh = demo_shell and w = world0]
    tolerated_and_required_fields [where
      http = "\<lambda>_. HttpOk (JObj [(''head'', JObj [(''ref'', JStr ''feature-x''),
                       (''repo'', JObj [(''full_name'', JStr ''alice/blender''),
                                        (''owner'', JObj [(''username'', JStr ''alice'')])])])])"
      and kvs = "[(''head'', JObj [(''ref'', JStr ''feature-x''),
                       (''repo'', JObj [(''full_name'', JStr ''alice/blender''),
                                        (''owner'', JObj [(''username'', JStr ''alice'')])])])]"
      and pr_repo = "JStr ''alice/blender''" and pr_author = "JStr ''alice''" and pr_branch = "JStr ''feature-x''"
      and ow = "''blender''" and rp = "''blender''" and n = "''42''" and sh = demo_shell and w = world0]
    tolerated_and_required_fields [where
      http = "\<lambda>_. HttpOk (JObj [(''head'', JObj [(''ref'', JStr ''feature-x''),
                       (''repo'', JObj [(''full_name'', JStr ''alice/blender''),
                                        (''owner'', JObj [(''username'', JStr ''alice'')])])]),
                  (''base'', JObj [(''ref'', JStr ''main'')])])"
      and kvs = "[(''head'', JObj [(''ref'', JStr ''feature-x''),
                       (''repo'', JObj [(''full_name'', JStr ''alice/blender''),
                                        (''owner'', JObj [(''username'', JStr ''alice'')])])]),
                  (''base'', JObj [(''ref'', JStr ''main'')])]"
      and pr_repo = "JStr ''alice/blender''" and pr_author = "JStr ''alice''" and pr_branch = "JStr ''feature-x''"
      and base = "JStr ''main''"
      and ow = "''blender''" and rp = "''blender''" and n = "''42''" and sh = demo_shell and w = world0]
  by (simp add: world0_def pr_url_def)

text \<open>
  C9 as first stated tolerates an absent \<open>head\<close> too; line 53 raises KeyError.
\<close>

theorem missing_head_counterexample:
  "checkout_pr demo_shell (\<lambda>_. HttpOk (JObj [(''state'', JStr ''open''), (''title'', JStr ''Fix x'')]))
       ''42'' ''blender'' ''blender'' world0 =
     (Inl (KeyError ''head''),
      \<lparr>cmds = [],
       urls = [''https://projects.blender.org/api/v1/repos/blender/blender/pulls/42''],
       out = []\<rparr>)"
  by (simp add: checkout_pr_def checkout_open_def fetch_pr_json_def pr_url_def seq_def lift_def world0_def Let_def)



end
